theory Spec2Isabelle
  imports Main "HOL-Library.Sublist" "HOL-Library.Word"
begin

section \<open>JavaScript values used by the DokuWiki client\<close>

text \<open>
  Messages, URLs and method names are lists of 8-bit characters. The credentials go
  through \<open>btoa\<close>, which tells code units above 255 from the others, so they and the
  header values made of them are lists of 16-bit code units, as JavaScript strings are.
  A property that may be missing from an object is an option: \<open>None\<close> is what reading
  it gives in JavaScript, \<open>undefined\<close>. Error codes are integers, as in the JSON-RPC
  wire format of DokuWiki.
\<close>

type_synonym js_string = "16 word list"

definition code_units :: "string \<Rightarrow> js_string" where
  \<comment> \<open>a string literal of the source, as code units\<close>
  "code_units s = map (\<lambda>c. of_nat (of_char c)) s"

definition js_includes :: "string \<Rightarrow> string \<Rightarrow> bool" where
  \<comment> \<open>\<open>s.includes(pat)\<close>\<close>
  "js_includes s pat = sublist pat s"

definition endsWith :: "string \<Rightarrow> string \<Rightarrow> bool" where
  \<comment> \<open>\<open>s.endsWith(suf)\<close>\<close>
  "endsWith s suf = suffix suf s"

definition truthy_str :: "'a list option \<Rightarrow> bool" where
  \<comment> \<open>truthiness of a property holding a string: \<open>undefined\<close> and \<open>""\<close> are falsy\<close>
  "truthy_str v = (case v of None \<Rightarrow> False | Some s \<Rightarrow> s \<noteq> [])"

definition truthy_num :: "int option \<Rightarrow> bool" where
  \<comment> \<open>truthiness of a property holding a number: \<open>undefined\<close> and \<open>0\<close> are falsy\<close>
  "truthy_num v = (case v of None \<Rightarrow> False | Some n \<Rightarrow> n \<noteq> 0)"

fun string_of_nat :: "nat \<Rightarrow> string" where
  "string_of_nat n =
     (if n < 10 then [''0123456789'' ! n]
      else string_of_nat (n div 10) @ [''0123456789'' ! (n mod 10)])"

declare string_of_nat.simps [simp del]

definition string_of_int :: "int \<Rightarrow> string" where
  \<comment> \<open>the decimal rendering a template literal gives an integer\<close>
  "string_of_int i =
     (if i < 0 then CHR ''-'' # string_of_nat (nat (- i)) else string_of_nat (nat i))"

definition str_or_undefined :: "string option \<Rightarrow> string" where
  \<comment> \<open>string concatenation of a property that may be \<open>undefined\<close>\<close>
  "str_or_undefined v = (case v of None \<Rightarrow> ''undefined'' | Some s \<Rightarrow> s)"

section \<open>Error objects\<close>

record js_error =
  message :: "string option"
  code :: "int option"
  originalMessage :: "string option"

datatype js_exn = TypeError | InvalidCharacterError

definition Error_message :: "string option \<Rightarrow> string" where
  \<comment> \<open>the \<open>message\<close> read from \<open>new Error(m)\<close>: \<open>Error.prototype.message\<close> is
      the empty string when \<open>m\<close> is \<open>undefined\<close>\<close>
  "Error_message m = (case m of None \<Rightarrow> [] | Some s \<Rightarrow> s)"

section \<open>errorHandler.js\<close>

definition ERROR_MESSAGES_table :: "(int \<times> string) list" where
  "ERROR_MESSAGES_table =
    [(0, ''Success''),
     (111, ''You are not allowed to read this page''),
     (121, ''The requested page (revision) does not exist''),
     (131, ''Empty or invalid page ID given''),
     (132, ''Refusing to write an empty new wiki page''),
     (133, ''The page is currently locked''),
     (134, ''The page content was blocked''),
     (211, ''You are not allowed to read this media file''),
     (212, ''You are not allowed to delete this media file''),
     (221, ''The requested media file (revision) does not exist''),
     (231, ''Empty or invalid media ID given''),
     (232, ''Media file is still referenced''),
     (233, ''Failed to delete media file''),
     (234, ''Invalid base64 encoded data''),
     (235, ''Empty file given''),
     (236, ''Failed to save media''),
     (401, ''Authentication failed. Please check your credentials''),
     (403, ''Insufficient permissions to perform this operation''),
     (500, ''Server error occurred. Please try again later''),
     (1000, ''Unable to connect to the DokuWiki server''),
     (1001, ''Network error when connecting to server''),
     (1002, ''Timeout when connecting to server'')]"

definition ERROR_MESSAGES :: "int \<Rightarrow> string option" where
  \<comment> \<open>\<open>ERROR_MESSAGES[code]\<close> for an integer code\<close>
  "ERROR_MESSAGES c = map_of ERROR_MESSAGES_table c"

definition handleApiError :: "js_error \<Rightarrow> js_error" where
  \<comment> \<open>the fields of the error object that \<open>handleApiError(error)\<close> returns\<close>
  "handleApiError error =
     (if \<not> truthy_num (code error) then error
      else
        let c = the (code error);
            enhancedError =
              \<lparr>message = Some (Error_message (message error)),
               code = code error,
               originalMessage = message error\<rparr>
        in if truthy_str (ERROR_MESSAGES c) then
             let m = the (ERROR_MESSAGES c) @ '' (Code: '' @ string_of_int c @ '')''
             in if truthy_str (originalMessage error) \<and>
                   \<not> js_includes m (the (originalMessage error))
                then enhancedError\<lparr>message :=
                       Some (m @ '' - '' @ the (originalMessage error))\<rparr>
                else enhancedError\<lparr>message := Some m\<rparr>
           else enhancedError)"

definition AUTH_SUGGESTION :: string where
  "AUTH_SUGGESTION = ''Check your username and password in plugin settings. Make sure you have the correct authentication method selected.''"

definition PERMISSION_SUGGESTION :: string where
  "PERMISSION_SUGGESTION = ''Your account doesn't have sufficient permissions. Contact your wiki administrator for access.''"

definition CONNECTION_SUGGESTION :: string where
  "CONNECTION_SUGGESTION = ''Check your network connection and verify that the DokuWiki URL is correct in plugin settings.''"

definition LOCKED_SUGGESTION :: string where
  "LOCKED_SUGGESTION = ''The page is currently being edited by another user. Try again later.''"

definition SERVER_SUGGESTION :: string where
  "SERVER_SUGGESTION = ''The server is experiencing issues. Please try again later or contact your wiki administrator.''"

definition getRecoverySuggestion :: "js_error \<Rightarrow> js_exn + string option" where
  \<comment> \<open>\<open>Inr None\<close> is \<open>null\<close>. In \<open>error.code === 401 || error.message.includes(...)\<close>
      the right operand is evaluated only when the code is not 401, and raises when the
      message is \<open>undefined\<close>\<close>
  "getRecoverySuggestion error =
     (if \<not> truthy_num (code error) then Inr None
      else
        let c = the (code error) in
        if c = 401 then Inr (Some AUTH_SUGGESTION)
        else (case message error of
                None \<Rightarrow> Inl TypeError
              | Some m \<Rightarrow>
                  if js_includes m ''Authentication failed'' then Inr (Some AUTH_SUGGESTION)
                  else if c = 403 \<or> c = 111 \<or> c = 212 then Inr (Some PERMISSION_SUGGESTION)
                  else if 1000 \<le> c \<and> c < 2000 then Inr (Some CONNECTION_SUGGESTION)
                  else if c = 133 then Inr (Some LOCKED_SUGGESTION)
                  else if 500 \<le> c \<and> c < 600 then Inr (Some SERVER_SUGGESTION)
                  else Inr None))"

section \<open>auth.js\<close>

record settings =
  wikiUrl :: "string option"
  authMethod :: "string option"
  username :: "js_string option"
  password :: "js_string option"

datatype 'a thrown = Threw 'a | Native js_exn

definition new_Error :: "string \<Rightarrow> js_error" where
  \<comment> \<open>\<open>new Error(m)\<close> for a string \<open>m\<close>\<close>
  "new_Error m = \<lparr>message = Some m, code = None, originalMessage = None\<rparr>"

definition base64_alphabet :: string where
  "base64_alphabet = ''ABCDEFGHIJKLMNOPQRSTUVWXYZabcdefghijklmnopqrstuvwxyz0123456789+/''"

fun base64_encode :: "nat list \<Rightarrow> string" where
  "base64_encode [] = []"
| "base64_encode [a] =
     [base64_alphabet ! (a div 4), base64_alphabet ! ((a mod 4) * 16), CHR ''='', CHR ''='']"
| "base64_encode [a, b] =
     [base64_alphabet ! (a div 4), base64_alphabet ! ((a mod 4) * 16 + b div 16),
      base64_alphabet ! ((b mod 16) * 4), CHR ''='']"
| "base64_encode (a # b # c # rest) =
     [base64_alphabet ! (a div 4), base64_alphabet ! ((a mod 4) * 16 + b div 16),
      base64_alphabet ! ((b mod 16) * 4 + c div 64), base64_alphabet ! (c mod 64)]
     @ base64_encode rest"

definition btoa :: "js_string \<Rightarrow> js_exn + js_string" where
  \<comment> \<open>the host's \<open>btoa\<close>: it raises \<open>InvalidCharacterError\<close> when a code unit is above
      255, and is the standard base64 with padding of the code units, as bytes,
      otherwise\<close>
  "btoa s =
     (if list_all (\<lambda>c. c \<le> 255) s then Inr (code_units (base64_encode (map unat s)))
      else Inl InvalidCharacterError)"

definition getAuthHeaders ::
  "settings option \<Rightarrow> js_error thrown + (string \<times> js_string) list" where
  "getAuthHeaders userSettings =
     (case userSettings of
        None \<Rightarrow> Inl (Threw (new_Error ''User settings are required''))
      | Some s \<Rightarrow>
          if \<not> truthy_str (wikiUrl s) then
            Inl (Threw (new_Error ''DokuWiki URL is required in settings''))
          else if \<not> truthy_str (authMethod s) then
            Inl (Threw (new_Error ''Authentication method is required in settings''))
          else if \<not> truthy_str (password s) then
            Inl (Threw (new_Error ''Password/Token is required in settings''))
          else
            let headers = [(''Content-Type'', code_units ''application/json'')] in
            if authMethod s = Some ''BASIC_AUTH'' then
              (if \<not> truthy_str (username s) then
                 Inl (Threw (new_Error ''Username is required for Basic Authentication''))
               else
                 (case btoa (the (username s) @ code_units '':'' @ the (password s)) of
                    Inl x \<Rightarrow> Inl (Native x)
                  | Inr credentials \<Rightarrow>
                      Inr (headers @ [(''Authorization'', code_units ''Basic '' @ credentials)])))
            else if authMethod s = Some ''BEARER_TOKEN'' then
              Inr (headers @ [(''Authorization'', code_units ''Bearer '' @ the (password s))])
            else
              Inl (Threw (new_Error (''Unsupported authentication method: ''
                     @ the (authMethod s) @ ''. Use BASIC_AUTH or BEARER_TOKEN.''))))"

datatype js_value =
    JUndefined
  | JNull
  | JBool bool
  | JNum int
  | JStr string
  | JArr "js_value list"
  | JObj "(string \<times> js_value) list"

record rpc_request =
  jsonrpc :: string
  id :: int
  rpc_method :: string
  params :: js_value

record http_request =
  url :: string
  http_method :: string
  http_headers :: "(string \<times> js_string) list"
  body :: rpc_request

text \<open>
  The \<open>error\<close> member of a parsed reply, when it is an object, and the reply itself:
  \<open>rpc_error = None\<close> is a reply whose \<open>error\<close> member is missing or \<open>null\<close>.
\<close>

record rpc_error_obj =
  rpc_code :: "int option"
  rpc_message :: "string option"

record rpc_response =
  rpc_result :: js_value
  rpc_error :: "rpc_error_obj option"

datatype fetch_outcome =
    Rejected string
      \<comment> \<open>\<open>fetch\<close>, \<open>response.text()\<close> or \<open>response.json()\<close> rejects with an
          \<open>Error\<close> of this message\<close>
  | NotOk nat string
      \<comment> \<open>\<open>response.ok\<close> is false: the status and the text of the body\<close>
  | JsonBody rpc_response
      \<comment> \<open>\<open>response.ok\<close> is true and the body parses to this reply\<close>

record json_rpc_client =
  baseUrl :: string
  headers :: "(string \<times> js_string) list"



definition jsonrpc_request :: "json_rpc_client \<Rightarrow> int \<Rightarrow> string \<Rightarrow> js_value \<Rightarrow> http_request" where
  \<comment> \<open>the arguments \<open>call\<close> gives \<open>fetch\<close>; \<open>now\<close> is \<open>Date.now()\<close>, and the default
      \<open>params = {}\<close> stands in for \<open>undefined\<close>\<close>
  "jsonrpc_request client now method ps =
     \<lparr>url = baseUrl client, http_method = ''POST'', http_headers = headers client,
      body = \<lparr>jsonrpc = ''2.0'', id = now, rpc_method = method,
              params = (case ps of JUndefined \<Rightarrow> JObj [] | _ \<Rightarrow> ps)\<rparr>\<rparr>"

definition call_error :: "string \<Rightarrow> string \<Rightarrow> int option \<Rightarrow> js_error" where
  \<comment> \<open>the \<open>catch\<close> block of \<open>call\<close>, for an error of message \<open>m\<close> and code \<open>c\<close>
      thrown in its \<open>try\<close> block\<close>
  "call_error method m c =
     \<lparr>message = Some (if \<not> js_includes m ''DokuWiki API error''
                       then ''DokuWiki API error calling '' @ method @ '': '' @ m
                       else m),
      code = c, originalMessage = None\<rparr>"

definition jsonRpcClient_call ::
  "json_rpc_client \<Rightarrow> (http_request \<Rightarrow> fetch_outcome) \<Rightarrow> int \<Rightarrow> string \<Rightarrow> js_value
     \<Rightarrow> js_error + js_value" where
  \<comment> \<open>the \<open>call\<close> method of the object \<open>createJsonRpcClient\<close> returns; \<open>Inl\<close> holds the
      fields of the error it throws\<close>
  "jsonRpcClient_call client fetch now method ps =
     (case fetch (jsonrpc_request client now method ps) of
        Rejected m \<Rightarrow> Inl (call_error method m None)
      | NotOk status errorText \<Rightarrow>
          Inl (call_error method
                 (''HTTP error '' @ string_of_nat status @ '': '' @ errorText) None)
      | JsonBody reply \<Rightarrow>
          (case rpc_error reply of
             Some e \<Rightarrow> Inl (call_error method (Error_message (rpc_message e)) (rpc_code e))
           | None \<Rightarrow> Inr (rpc_result reply)))"

section \<open>apiClient.js\<close>

text \<open>
  The client's \<open>catch\<close> block changes the message of the error object it is about to
  throw, so error objects live in a store: a list of objects, an object's reference its
  index. \<open>new Error\<close> appends an object.
\<close>

type_synonym ref = nat
type_synonym store = "js_error list"

definition handleApiError_obj :: "store \<Rightarrow> ref \<Rightarrow> store \<times> ref" where
  \<comment> \<open>which object \<open>handleApiError\<close> returns: its argument, or a new one\<close>
  "handleApiError_obj h r =
     (if \<not> truthy_num (code (h ! r)) then (h, r)
      else (h @ [handleApiError (h ! r)], length h))"

definition call_catch :: "store \<Rightarrow> ref \<Rightarrow> store \<times> ref thrown" where
  \<comment> \<open>the \<open>catch\<close> block of the client's \<open>call\<close>, entered with the caught error \<open>r\<close>\<close>
  "call_catch h r =
     (case handleApiError_obj h r of
        (h1, enhancedError) \<Rightarrow>
          (case getRecoverySuggestion (h1 ! enhancedError) of
             Inl x \<Rightarrow> (h1, Native x)
           | Inr recoverySuggestion \<Rightarrow>
               if truthy_str recoverySuggestion then
                 (h1[enhancedError := (h1 ! enhancedError)
                       \<lparr>message := Some (str_or_undefined (message (h1 ! enhancedError))
                          @ ''\<newline>\<newline>Possible solution: ''
                          @ the recoverySuggestion)\<rparr>],
                  Threw enhancedError)
               else (h1, Threw enhancedError)))"

definition client_call ::
  "json_rpc_client \<Rightarrow> (http_request \<Rightarrow> fetch_outcome) \<Rightarrow> int \<Rightarrow> store \<Rightarrow> string \<Rightarrow> js_value
     \<Rightarrow> store \<times> (ref thrown + js_value)" where
  \<comment> \<open>the \<open>call\<close> method of the object \<open>createApiClient\<close> returns, \<open>client\<close> being its
      \<open>_jsonRpcClient\<close>; the error caught is a new object of the store\<close>
  "client_call client fetch now h method ps =
     (case jsonRpcClient_call client fetch now method ps of
        Inr v \<Rightarrow> (h, Inr v)
      | Inl e \<Rightarrow> (case call_catch (h @ [e]) (length h) of (h', t) \<Rightarrow> (h', Inl t)))"

definition pageExists ::
  "json_rpc_client \<Rightarrow> (http_request \<Rightarrow> fetch_outcome) \<Rightarrow> int \<Rightarrow> store \<Rightarrow> js_value
     \<Rightarrow> store \<times> (ref thrown + bool)" where
  "pageExists client fetch now h pageId =
     (case client_call client fetch now h ''core.getPageInfo'' (JObj [(''page'', pageId)]) of
        (h', Inr pageInfo) \<Rightarrow> (h', Inr True)
      | (h', Inl (Threw error)) \<Rightarrow>
          if code (h' ! error) = Some 121 then (h', Inr False) else (h', Inl (Threw error))
      | (h', Inl (Native x)) \<Rightarrow> (h', Inl (Native x)))"

definition mediaExists ::
  "json_rpc_client \<Rightarrow> (http_request \<Rightarrow> fetch_outcome) \<Rightarrow> int \<Rightarrow> store \<Rightarrow> js_value
     \<Rightarrow> store \<times> (ref thrown + bool)" where
  "mediaExists client fetch now h mediaId =
     (case client_call client fetch now h ''core.getMediaInfo'' (JObj [(''media'', mediaId)]) of
        (h', Inr mediaInfo) \<Rightarrow> (h', Inr True)
      | (h', Inl (Threw error)) \<Rightarrow>
          if code (h' ! error) = Some 221 then (h', Inr False) else (h', Inl (Threw error))
      | (h', Inl (Native x)) \<Rightarrow> (h', Inl (Native x)))"

section \<open>Facts about strings and the table\<close>

lemma js_includes_mid: "js_includes (a @ p @ b) p"
  by (simp add: js_includes_def)

lemma js_includes_prefix: "js_includes (p @ b) p"
  by (simp add: js_includes_def)

lemma ERROR_MESSAGES_nonempty: "ERROR_MESSAGES c = Some d \<Longrightarrow> d \<noteq> []"
  by (auto simp add: ERROR_MESSAGES_def ERROR_MESSAGES_table_def split: if_splits)

section \<open>handleApiError\<close>

lemma handleApiError_in_table:
  assumes "code e = Some c" "c \<noteq> 0" "ERROR_MESSAGES c = Some d"
  shows "message (handleApiError e) =
           Some (if truthy_str (originalMessage e) \<and>
                    \<not> js_includes (d @ '' (Code: '' @ string_of_int c @ '')'')
                          (the (originalMessage e))
                 then d @ '' (Code: '' @ string_of_int c @ '')'' @ '' - ''
                        @ the (originalMessage e)
                 else d @ '' (Code: '' @ string_of_int c @ '')'')"
  using assms ERROR_MESSAGES_nonempty [OF assms(3)]
  by (simp add: handleApiError_def truthy_num_def truthy_str_def Let_def)

lemma handleApiError_code: "code (handleApiError e) = code e"
  by (simp add: handleApiError_def Let_def)

lemma handleApiError_originalMessage:
  "truthy_num (code e) \<Longrightarrow> originalMessage (handleApiError e) = message e"
  by (simp add: handleApiError_def Let_def)

lemma handleApiError_message_Some:
  "truthy_num (code e) \<Longrightarrow> \<exists>m. message (handleApiError e) = Some m"
  by (simp add: handleApiError_def Let_def)

lemma handleApiError_falsy: "\<not> truthy_num (code e) \<Longrightarrow> handleApiError e = e"
  by (simp add: handleApiError_def)

lemma handleApiError_unmapped:
  "code e = Some c \<Longrightarrow> c \<noteq> 0 \<Longrightarrow> ERROR_MESSAGES c = None \<Longrightarrow>
     handleApiError e =
       \<lparr>message = Some (Error_message (message e)), code = code e,
        originalMessage = message e\<rparr>"
  by (simp add: handleApiError_def Let_def truthy_num_def truthy_str_def)

text \<open>
  C1. For an error whose code is in the table, the message is to be
  \<open>"<description> (Code: <code>)"\<close>, followed by \<open>" - "\<close> and the input's message
  whenever that message is non-empty and not contained in it. \<open>handleApiError\<close> stores
  the input's message as \<open>originalMessage\<close> of the new error, but the text it tests and
  appends is the \<open>originalMessage\<close> property of the input. An error with code 500 and the
  message \<open>Technical database error\<close>, which has no such property, comes back with the
  description and the code alone: its message is kept as \<open>originalMessage\<close> and appears
  nowhere in the new message, although it is non-empty and the new message does not
  contain it.
\<close>

theorem handleApiError_drops_technical_message:
  "ERROR_MESSAGES 500 = Some ''Server error occurred. Please try again later'' \<and>
   message (handleApiError \<lparr>message = Some ''Technical database error'', code = Some 500,
                            originalMessage = None\<rparr>)
     = Some ''Server error occurred. Please try again later (Code: 500)'' \<and>
   originalMessage (handleApiError \<lparr>message = Some ''Technical database error'',
                                    code = Some 500, originalMessage = None\<rparr>)
     = Some ''Technical database error'' \<and>
   \<not> js_includes ''Server error occurred. Please try again later (Code: 500)''
         ''Technical database error'' \<and>
   message (handleApiError \<lparr>message = Some ''Technical database error'', code = Some 500,
                            originalMessage = None\<rparr>)
     \<noteq> Some ''Server error occurred. Please try again later (Code: 500) - Technical database error''"
  by code_simp

text \<open>
  C2. For every code of the table, the claim promises a message that contains the
  description and \<open>(Code: <code>)\<close>. Code 0 (\<open>Success\<close>) is in the table, and an error
  with code 0 is returned unchanged, because \<open>!error.code\<close> holds for 0. For every other
  code of the table the message contains both.
\<close>

theorem handleApiError_message_contains:
  assumes "code e = Some c" "c \<noteq> 0" "ERROR_MESSAGES c = Some d"
  shows "\<exists>m. message (handleApiError e) = Some m \<and> js_includes m d \<and>
             js_includes m (''(Code: '' @ string_of_int c @ '')'')"
proof -
  let ?tag = "''(Code: '' @ string_of_int c @ '')''"
  have a: "js_includes (d @ '' '' @ ?tag @ rest) d" for rest
    by (rule js_includes_prefix)
  have b: "js_includes (d @ '' '' @ ?tag @ rest) ?tag" for rest
    using js_includes_mid [of "d @ '' ''" ?tag rest] by simp
  show ?thesis
    using handleApiError_in_table [OF assms] a [of "[]"] b [of "[]"]
      a [of "'' - '' @ the (originalMessage e)"] b [of "'' - '' @ the (originalMessage e)"]
    by (auto split: if_splits)
qed

theorem handleApiError_message_contains_witness:
  "code \<lparr>message = Some ''boom'', code = Some 1002, originalMessage = Some ''socket closed''\<rparr>
     = Some 1002 \<and>
   (1002::int) \<noteq> 0 \<and>
   ERROR_MESSAGES 1002 = Some ''Timeout when connecting to server'' \<and>
   (\<exists>m. message (handleApiError \<lparr>message = Some ''boom'', code = Some 1002,
                                  originalMessage = Some ''socket closed''\<rparr>) = Some m \<and>
        js_includes m ''Timeout when connecting to server'' \<and>
        js_includes m ''(Code: 1002)'')"
proof -
  let ?e = "\<lparr>message = Some ''boom'', code = Some 1002,
             originalMessage = Some ''socket closed''\<rparr>"
  have c: "code ?e = Some 1002" by simp
  have t: "ERROR_MESSAGES 1002 = Some ''Timeout when connecting to server''"
    by (simp add: ERROR_MESSAGES_def ERROR_MESSAGES_table_def)
  have s: "string_of_int 1002 = ''1002''"
    by (simp add: string_of_int_def string_of_nat.simps)
  from handleApiError_message_contains [OF c _ t] c t s show ?thesis by simp
qed

theorem handleApiError_message_contains_counterexample:
  "ERROR_MESSAGES 0 = Some ''Success'' \<and>
   message (handleApiError \<lparr>message = Some ''done'', code = Some 0, originalMessage = None\<rparr>)
     = Some ''done'' \<and>
   \<not> js_includes ''done'' ''Success'' \<and> \<not> js_includes ''done'' ''(Code: 0)''"
  by code_simp

section \<open>getRecoverySuggestion\<close>

lemma getRecoverySuggestion_falsy:
  "\<not> truthy_num (code e) \<Longrightarrow> getRecoverySuggestion e = Inr None"
  by (simp add: getRecoverySuggestion_def)

lemma getRecoverySuggestion_message_Some:
  "message e = Some m \<Longrightarrow> \<exists>s. getRecoverySuggestion e = Inr s"
  by (simp add: getRecoverySuggestion_def Let_def)

text \<open>
  C3. The claim makes the result \<open>null\<close> exactly when the code is missing or in none of
  the listed sets, whatever the message. The first test of the function also gives the
  authentication suggestion to any error whose message contains
  \<open>Authentication failed\<close>, so a code outside every set does not suffice. The result is
  \<open>null\<close> exactly when the code is missing or 0, or the code is in none of the sets and
  the message is a string without that phrase.
\<close>

theorem getRecoverySuggestion_null_iff:
  "getRecoverySuggestion e = Inr None \<longleftrightarrow>
     (code e = None \<or> code e = Some 0 \<or>
      (\<exists>c m. code e = Some c \<and> message e = Some m \<and>
             \<not> js_includes m ''Authentication failed'' \<and>
             c \<noteq> 401 \<and> c \<notin> {403, 111, 212} \<and> \<not> (1000 \<le> c \<and> c < 2000) \<and>
             c \<noteq> 133 \<and> \<not> (500 \<le> c \<and> c < 600)))"
  by (auto simp add: getRecoverySuggestion_def truthy_num_def Let_def split: option.splits)

theorem getRecoverySuggestion_null_iff_witness:
  "getRecoverySuggestion \<lparr>message = Some ''Unknown error'', code = Some 9999,
                           originalMessage = None\<rparr> = Inr None"
proof -
  have "\<not> js_includes ''Unknown error'' ''Authentication failed''" by code_simp
  then show ?thesis
    using getRecoverySuggestion_null_iff
      [of "\<lparr>message = Some ''Unknown error'', code = Some 9999, originalMessage = None\<rparr>"]
    by simp
qed

theorem getRecoverySuggestion_null_iff_counterexample:
  "getRecoverySuggestion \<lparr>message = Some ''Authentication failed'', code = Some 9999,
                           originalMessage = None\<rparr> = Inr (Some AUTH_SUGGESTION) \<and>
   (9999::int) \<noteq> 401 \<and> (9999::int) \<notin> {403, 111, 212} \<and>
   \<not> (1000 \<le> (9999::int) \<and> (9999::int) < 2000) \<and>
   (9999::int) \<noteq> 133 \<and> \<not> (500 \<le> (9999::int) \<and> (9999::int) < 600)"
  by (simp add: getRecoverySuggestion_def truthy_num_def js_includes_def)

text \<open>
  C8. The claim lets the message be missing and still promises that neither function
  raises. \<open>handleApiError\<close> reads the message only through \<open>new Error\<close> and returns an
  error for every input. \<open>getRecoverySuggestion\<close> calls \<open>error.message.includes\<close>, which
  raises \<open>TypeError\<close> when the message is \<open>undefined\<close>, the code is truthy and not 401.
  It returns a string or \<open>null\<close> in every other case, so for every error whose message
  is a string. Where no mapping applies the error comes back itself (no truthy code) or
  as a copy with the same code and message (a code that is not in the table).
\<close>

theorem enrichment_returns:
  "((\<exists>s. getRecoverySuggestion e = Inr s) \<longleftrightarrow>
      \<not> (message e = None \<and> truthy_num (code e) \<and> code e \<noteq> Some 401)) \<and>
   (\<not> truthy_num (code e) \<longrightarrow> handleApiError e = e) \<and>
   (\<forall>c. code e = Some c \<and> ERROR_MESSAGES c = None \<longrightarrow>
        code (handleApiError e) = code e \<and>
        (\<forall>m. message e = Some m \<longrightarrow> message (handleApiError e) = Some m))"
proof -
  have "(\<exists>s. getRecoverySuggestion e = Inr s) \<longleftrightarrow>
      \<not> (message e = None \<and> truthy_num (code e) \<and> code e \<noteq> Some 401)"
    by (auto simp add: getRecoverySuggestion_def truthy_num_def Let_def split: option.splits)
  moreover have "\<not> truthy_num (code e) \<longrightarrow> handleApiError e = e"
    by (simp add: handleApiError_falsy)
  moreover have "\<forall>c. code e = Some c \<and> ERROR_MESSAGES c = None \<longrightarrow>
        code (handleApiError e) = code e \<and>
        (\<forall>m. message e = Some m \<longrightarrow> message (handleApiError e) = Some m)"
  proof (intro allI impI)
    fix c assume h: "code e = Some c \<and> ERROR_MESSAGES c = None"
    show "code (handleApiError e) = code e \<and>
        (\<forall>m. message e = Some m \<longrightarrow> message (handleApiError e) = Some m)"
    proof (cases "c = 0")
      case True
      with h show ?thesis by (simp add: handleApiError_falsy truthy_num_def)
    next
      case False
      with h show ?thesis by (simp add: handleApiError_unmapped Error_message_def)
    qed
  qed
  ultimately show ?thesis by blast
qed

theorem enrichment_returns_witness:
  "getRecoverySuggestion \<lparr>message = Some ''Unknown error'', code = Some 9999,
                           originalMessage = None\<rparr> \<noteq> Inl TypeError \<and>
   handleApiError \<lparr>message = Some ''Test error'', code = None, originalMessage = None\<rparr>
     = \<lparr>message = Some ''Test error'', code = None, originalMessage = None\<rparr> \<and>
   code (handleApiError \<lparr>message = Some ''Unknown error'', code = Some 9999,
                         originalMessage = None\<rparr>) = Some 9999 \<and>
   message (handleApiError \<lparr>message = Some ''Unknown error'', code = Some 9999,
                            originalMessage = None\<rparr>) = Some ''Unknown error''"
proof -
  have t: "ERROR_MESSAGES 9999 = None"
    by (simp add: ERROR_MESSAGES_def ERROR_MESSAGES_table_def)
  show ?thesis
    using t
      enrichment_returns
        [of "\<lparr>message = Some ''Unknown error'', code = Some 9999, originalMessage = None\<rparr>"]
      enrichment_returns
        [of "\<lparr>message = Some ''Test error'', code = None, originalMessage = None\<rparr>"]
    by (auto simp add: truthy_num_def)
qed

theorem enrichment_returns_counterexample:
  "getRecoverySuggestion \<lparr>message = None, code = Some 500, originalMessage = None\<rparr>
     = Inl TypeError"
  by (simp add: getRecoverySuggestion_def truthy_num_def)

section \<open>The JSON-RPC client\<close>

lemma call_error_code: "code (call_error method m c) = c"
  by (simp add: call_error_def)

lemma call_error_message:
  "\<exists>t. message (call_error method m c) = Some t \<and> endsWith t m"
  by (simp add: call_error_def endsWith_def suffix_def)

text \<open>
  C4. On a reply with a success status, \<open>call\<close> returns the \<open>result\<close> member as it is
  when the reply has no error object, whatever the result (\<open>null\<close>, the empty string,
  an empty array or object). When the reply has an error object, whatever its code (0
  too), \<open>call\<close> throws an error with that object's code whose message is that object's
  message, after the context \<open>DokuWiki API error calling <method>: \<close> when the message
  does not hold it yet; the result member is not read.
\<close>

theorem jsonRpcClient_call_success_status:
  assumes "fetch (jsonrpc_request client now method ps) = JsonBody reply"
  shows "(rpc_error reply = None \<longrightarrow>
            jsonRpcClient_call client fetch now method ps = Inr (rpc_result reply)) \<and>
         (\<forall>e. rpc_error reply = Some e \<longrightarrow>
            (\<exists>err t. jsonRpcClient_call client fetch now method ps = Inl err \<and>
                     code err = rpc_code e \<and> message err = Some t \<and>
                     endsWith t (Error_message (rpc_message e))))"
  using assms call_error_message
  by (auto simp add: jsonRpcClient_call_def call_error_code)

theorem jsonRpcClient_call_success_status_witness:
  "jsonRpcClient_call \<lparr>baseUrl = ''https://wiki.example.com/lib/exe/jsonrpc.php'', headers = []\<rparr>
      (\<lambda>req. JsonBody \<lparr>rpc_result = JStr [], rpc_error = None\<rparr>) 1234567890
      ''core.getPage'' (JObj []) = Inr (JStr []) \<and>
   (\<exists>err. jsonRpcClient_call
             \<lparr>baseUrl = ''https://wiki.example.com/lib/exe/jsonrpc.php'', headers = []\<rparr>
             (\<lambda>req. JsonBody \<lparr>rpc_result = JStr ''ignored'',
                               rpc_error = Some \<lparr>rpc_code = Some 0, rpc_message = Some ''odd''\<rparr>\<rparr>)
             1234567890 ''core.getPage'' (JObj []) = Inl err \<and> code err = Some 0)"
proof -
  let ?c = "\<lparr>baseUrl = ''https://wiki.example.com/lib/exe/jsonrpc.php'', headers = []\<rparr>"
  let ?f = "\<lambda>req::http_request. JsonBody \<lparr>rpc_result = JStr [], rpc_error = None\<rparr>"
  let ?g = "\<lambda>req::http_request. JsonBody \<lparr>rpc_result = JStr ''ignored'',
              rpc_error = Some \<lparr>rpc_code = Some 0, rpc_message = Some ''odd''\<rparr>\<rparr>"
  let ?r = "\<lparr>rpc_result = JStr [], rpc_error = None\<rparr>"
  let ?e = "\<lparr>rpc_code = Some 0, rpc_message = Some ''odd''\<rparr>"
  let ?q = "\<lparr>rpc_result = JStr ''ignored'', rpc_error = Some ?e\<rparr>"
  have "jsonRpcClient_call ?c ?f 1234567890 ''core.getPage'' (JObj []) = Inr (JStr [])"
    using jsonRpcClient_call_success_status
      [of ?f ?c 1234567890 "''core.getPage''" "JObj []" ?r]
    by simp
  moreover have "\<exists>err. jsonRpcClient_call ?c ?g 1234567890 ''core.getPage'' (JObj []) = Inl err
                  \<and> code err = Some 0"
    using jsonRpcClient_call_success_status
      [of ?g ?c 1234567890 "''core.getPage''" "JObj []" ?q]
    by auto
  ultimately show ?thesis by blast
qed

section \<open>getAuthHeaders\<close>

lemma code_units_nonempty: "code_units s \<noteq> [] \<longleftrightarrow> s \<noteq> []"
  by (simp add: code_units_def)

text \<open>
  C5. A setting is present when \<open>getAuthHeaders\<close> finds it truthy: set, and not the empty
  string. The claim promises the two headers for every user name and password that are
  present. For \<open>BASIC_AUTH\<close> the credentials go through \<open>btoa\<close>, which raises
  \<open>InvalidCharacterError\<close> when a code unit of \<open>username:password\<close> is above 255, and
  then no headers are returned. With the URL, a user name and a password present, the
  method \<open>BASIC_AUTH\<close> and no code unit above 255 in the user name and the password,
  the result is the two headers \<open>Content-Type: application/json\<close> and
  \<open>Authorization: Basic\<close> followed by the base64 of \<open>username:password\<close>, and no other.
  With the URL and a password present and the method \<open>BEARER_TOKEN\<close>, it is
  \<open>Content-Type: application/json\<close> and \<open>Authorization: Bearer <password>\<close>, whatever
  the user name and whatever the code units of the password.
\<close>

theorem getAuthHeaders_basic_and_bearer:
  "(truthy_str (wikiUrl s) \<and> authMethod s = Some ''BASIC_AUTH'' \<and>
    username s = Some u \<and> u \<noteq> [] \<and> password s = Some p \<and> p \<noteq> [] \<and>
    list_all (\<lambda>c. c \<le> 255) (u @ p) \<longrightarrow>
      getAuthHeaders (Some s) =
        Inr [(''Content-Type'', code_units ''application/json''),
             (''Authorization'',
              code_units ''Basic ''
                @ code_units (base64_encode (map unat (u @ code_units '':'' @ p))))]) \<and>
   (truthy_str (wikiUrl s) \<and> authMethod s = Some ''BASIC_AUTH'' \<and>
    username s = Some u \<and> u \<noteq> [] \<and> password s = Some p \<and> p \<noteq> [] \<and>
    \<not> list_all (\<lambda>c. c \<le> 255) (u @ p) \<longrightarrow>
      getAuthHeaders (Some s) = Inl (Native InvalidCharacterError)) \<and>
   (truthy_str (wikiUrl s) \<and> authMethod s = Some ''BEARER_TOKEN'' \<and>
    password s = Some p \<and> p \<noteq> [] \<longrightarrow>
      getAuthHeaders (Some s) =
        Inr [(''Content-Type'', code_units ''application/json''),
             (''Authorization'', code_units ''Bearer '' @ p)])"
proof -
  have colon: "list_all (\<lambda>c. c \<le> 255) (code_units '':'')"
    by (simp add: code_units_def)
  show ?thesis
    using colon by (simp add: getAuthHeaders_def btoa_def truthy_str_def Let_def)
qed

theorem getAuthHeaders_basic_and_bearer_witness:
  "getAuthHeaders (Some \<lparr>wikiUrl = Some ''https://wiki.example.com'',
                          authMethod = Some ''BASIC_AUTH'',
                          username = Some (code_units ''user''),
                          password = Some (code_units ''password123'')\<rparr>) =
     Inr [(''Content-Type'', code_units ''application/json''),
          (''Authorization'', code_units ''Basic dXNlcjpwYXNzd29yZDEyMw=='')] \<and>
   getAuthHeaders (Some \<lparr>wikiUrl = Some ''https://wiki.example.com'',
                          authMethod = Some ''BEARER_TOKEN'',
                          username = Some (code_units ''user''),
                          password = Some (code_units ''token123'')\<rparr>) =
     Inr [(''Content-Type'', code_units ''application/json''),
          (''Authorization'', code_units ''Bearer token123'')]"
proof -
  let ?b = "\<lparr>wikiUrl = Some ''https://wiki.example.com'', authMethod = Some ''BASIC_AUTH'',
             username = Some (code_units ''user''),
             password = Some (code_units ''password123'')\<rparr>"
  let ?t = "\<lparr>wikiUrl = Some ''https://wiki.example.com'', authMethod = Some ''BEARER_TOKEN'',
             username = Some (code_units ''user''),
             password = Some (code_units ''token123'')\<rparr>"
  have l: "list_all (\<lambda>c. c \<le> 255) (code_units ''user'' @ code_units ''password123'')"
    by code_simp
  have e: "code_units ''Basic ''
             @ code_units (base64_encode (map unat
                 (code_units ''user'' @ code_units '':'' @ code_units ''password123'')))
           = code_units ''Basic dXNlcjpwYXNzd29yZDEyMw==''"
    by code_simp
  have e': "code_units ''Bearer '' @ code_units ''token123'' = code_units ''Bearer token123''"
    by (simp add: code_units_def)
  have "getAuthHeaders (Some ?b) =
     Inr [(''Content-Type'', code_units ''application/json''),
          (''Authorization'', code_units ''Basic dXNlcjpwYXNzd29yZDEyMw=='')]"
    using l e
      getAuthHeaders_basic_and_bearer
        [of ?b "code_units ''user''" "code_units ''password123''"]
    by (simp add: truthy_str_def code_units_nonempty)
  moreover have "getAuthHeaders (Some ?t) =
     Inr [(''Content-Type'', code_units ''application/json''),
          (''Authorization'', code_units ''Bearer token123'')]"
    using e'
      getAuthHeaders_basic_and_bearer
        [of ?t "code_units ''user''" "code_units ''token123''"]
    by (simp add: truthy_str_def code_units_nonempty)
  ultimately show ?thesis by (rule conjI)
qed

theorem getAuthHeaders_basic_and_bearer_counterexample:
  "getAuthHeaders (Some \<lparr>wikiUrl = Some ''https://wiki.example.com'',
                          authMethod = Some ''BASIC_AUTH'',
                          username = Some [0x20AC],
                          password = Some (code_units ''password123'')\<rparr>)
     = Inl (Native InvalidCharacterError)"
  by code_simp

section \<open>The endpoint\<close>





section \<open>The client's catch block\<close>

lemma call_catch_falsy:
  "\<not> truthy_num (code (h ! r)) \<Longrightarrow> call_catch h r = (h, Threw r)"
  by (simp add: call_catch_def handleApiError_obj_def getRecoverySuggestion_falsy truthy_str_def)

lemma call_catch_truthy:
  assumes "truthy_num (code (h ! r))"
  shows "\<exists>e'. call_catch h r = (h @ [e'], Threw (length h)) \<and> code e' = code (h ! r) \<and>
              originalMessage e' = message (h ! r)"
proof -
  obtain m where m: "message (handleApiError (h ! r)) = Some m"
    using handleApiError_message_Some [OF assms] by blast
  obtain s where s: "getRecoverySuggestion (handleApiError (h ! r)) = Inr s"
    using getRecoverySuggestion_message_Some [OF m] by blast
  show ?thesis
    using assms m s
    by (simp add: call_catch_def handleApiError_obj_def handleApiError_code
        handleApiError_originalMessage)
qed

lemma call_catch_code:
  "\<exists>h' r'. call_catch h r = (h', Threw r') \<and> code (h' ! r') = code (h ! r)"
proof (cases "truthy_num (code (h ! r))")
  case True
  then obtain e' where "call_catch h r = (h @ [e'], Threw (length h))" "code e' = code (h ! r)"
    using call_catch_truthy by blast
  then show ?thesis by simp
next
  case False
  then show ?thesis by (simp add: call_catch_falsy)
qed

text \<open>
  C9. The catch block of the client's \<open>call\<close> runs \<open>handleApiError\<close> on the caught error
  and appends the suggestion to the message of the error that came back. Every error
  object that was in the store before, the caught one among them, has the same
  message, code and originalMessage afterwards. When the code of the caught error is
  truthy, the error thrown is a new object; when it is not, \<open>handleApiError\<close> returns the
  caught object itself, no suggestion is found for it, and it is thrown as it was.
\<close>

theorem call_catch_frame:
  assumes "r < length h"
  shows "fst (call_catch h r) ! r = h ! r \<and>
         (\<forall>i<length h. fst (call_catch h r) ! i = h ! i) \<and>
         (if truthy_num (code (h ! r)) then snd (call_catch h r) = Threw (length h)
          else call_catch h r = (h, Threw r))"
proof (cases "truthy_num (code (h ! r))")
  case True
  then obtain e' where "call_catch h r = (h @ [e'], Threw (length h))"
    using call_catch_truthy by blast
  with True assms show ?thesis by (simp add: nth_append)
next
  case False
  then show ?thesis by (simp add: call_catch_falsy)
qed

theorem call_catch_frame_witness:
  "(0::nat) < length [\<lparr>message = Some ''DokuWiki API error calling core.getPage: denied'',
                       code = Some 403, originalMessage = None\<rparr>] \<and>
   fst (call_catch [\<lparr>message = Some ''DokuWiki API error calling core.getPage: denied'',
                      code = Some 403, originalMessage = None\<rparr>] 0) ! 0
     = \<lparr>message = Some ''DokuWiki API error calling core.getPage: denied'',
        code = Some 403, originalMessage = None\<rparr> \<and>
   snd (call_catch [\<lparr>message = Some ''DokuWiki API error calling core.getPage: denied'',
                      code = Some 403, originalMessage = None\<rparr>] 0) = Threw 1"
  using call_catch_frame
    [of 0 "[\<lparr>message = Some ''DokuWiki API error calling core.getPage: denied'',
             code = Some 403, originalMessage = None\<rparr>]"]
  by (simp add: truthy_num_def)

text \<open>
  C10. For an error with a truthy code, the error that \<open>handleApiError\<close> returns has the
  code of its argument and its argument's message as originalMessage. So when the
  JSON-RPC client throws, the error that the client's \<open>call\<close> throws, which is the one
  \<open>pageExists\<close> and \<open>mediaExists\<close> compare with 121 and 221, has the code the JSON-RPC
  client threw.
\<close>

theorem enrichment_keeps_code:
  "(truthy_num (code e) \<longrightarrow>
      code (handleApiError e) = code e \<and> originalMessage (handleApiError e) = message e) \<and>
   (\<forall>t. jsonRpcClient_call client fetch now method ps = Inl t \<longrightarrow>
      (\<exists>h' r'. client_call client fetch now h method ps = (h', Inl (Threw r')) \<and>
               code (h' ! r') = code t))"
proof -
  have "\<exists>h' r'. client_call client fetch now h method ps = (h', Inl (Threw r')) \<and>
               code (h' ! r') = code t"
    if t: "jsonRpcClient_call client fetch now method ps = Inl t" for t
  proof -
    obtain h' r' where "call_catch (h @ [t]) (length h) = (h', Threw r')"
      "code (h' ! r') = code ((h @ [t]) ! length h)"
      using call_catch_code [of "h @ [t]" "length h"] by blast
    with t show ?thesis by (simp add: client_call_def)
  qed
  then show ?thesis
    by (simp add: handleApiError_code handleApiError_originalMessage)
qed

theorem enrichment_keeps_code_witness:
  "truthy_num (code \<lparr>message = Some ''Page not found'', code = Some 121,
                     originalMessage = None\<rparr>) \<and>
   code (handleApiError \<lparr>message = Some ''Page not found'', code = Some 121,
                         originalMessage = None\<rparr>) = Some 121 \<and>
   originalMessage (handleApiError \<lparr>message = Some ''Page not found'', code = Some 121,
                                    originalMessage = None\<rparr>) = Some ''Page not found'' \<and>
   (\<exists>h' r'. client_call
               \<lparr>baseUrl = ''https://wiki.example.com/lib/exe/jsonrpc.php'', headers = []\<rparr>
               (\<lambda>req. JsonBody \<lparr>rpc_result = JNull,
                  rpc_error = Some \<lparr>rpc_code = Some 121,
                                    rpc_message = Some ''Page not found''\<rparr>\<rparr>)
               1234567890 [] ''core.getPageInfo'' (JObj [(''page'', JStr ''start'')])
             = (h', Inl (Threw r')) \<and>
            code (h' ! r') = Some 121)"
proof -
  let ?e = "\<lparr>message = Some ''Page not found'', code = Some 121, originalMessage = None\<rparr>"
  let ?c = "\<lparr>baseUrl = ''https://wiki.example.com/lib/exe/jsonrpc.php'', headers = []\<rparr>"
  let ?f = "\<lambda>req::http_request. JsonBody \<lparr>rpc_result = JNull,
              rpc_error = Some \<lparr>rpc_code = Some 121, rpc_message = Some ''Page not found''\<rparr>\<rparr>"
  have a: "\<exists>t. jsonRpcClient_call ?c ?f 1234567890 ''core.getPageInfo''
               (JObj [(''page'', JStr ''start'')]) = Inl t \<and> code t = Some 121"
    by (simp add: jsonRpcClient_call_def call_error_code)
  have b: "truthy_num (code ?e)" by (simp add: truthy_num_def)
  from a b
    enrichment_keeps_code
      [of ?e ?c ?f 1234567890 "''core.getPageInfo''" "JObj [(''page'', JStr ''start'')]" "[]"]
  show ?thesis by fastforce
qed

section \<open>pageExists and mediaExists\<close>

lemma client_call_Inr:
  "jsonRpcClient_call client fetch now method ps = Inr v \<Longrightarrow>
     client_call client fetch now h method ps = (h, Inr v)"
  by (simp add: client_call_def)

lemma client_call_Inl:
  assumes "jsonRpcClient_call client fetch now method ps = Inl e"
  shows "\<exists>h' r'. client_call client fetch now h method ps = (h', Inl (Threw r')) \<and>
                 code (h' ! r') = code e"
proof -
  obtain h' r' where "call_catch (h @ [e]) (length h) = (h', Threw r')"
      "code (h' ! r') = code ((h @ [e]) ! length h)"
    using call_catch_code [of "h @ [e]" "length h"] by blast
  with assms show ?thesis by (simp add: client_call_def)
qed

lemma pageExists_cases:
  "(snd (pageExists client fetch now h pageId) = Inr False
      \<longleftrightarrow> (\<exists>e. jsonRpcClient_call client fetch now ''core.getPageInfo''
                 (JObj [(''page'', pageId)]) = Inl e \<and> code e = Some 121)) \<and>
   (snd (pageExists client fetch now h pageId) = Inr True
      \<longleftrightarrow> (\<exists>v. jsonRpcClient_call client fetch now ''core.getPageInfo''
                 (JObj [(''page'', pageId)]) = Inr v)) \<and>
   (\<forall>e. jsonRpcClient_call client fetch now ''core.getPageInfo''
           (JObj [(''page'', pageId)]) = Inl e \<and> code e \<noteq> Some 121 \<longrightarrow>
      (\<exists>h' r'. client_call client fetch now h ''core.getPageInfo''
                  (JObj [(''page'', pageId)]) = (h', Inl (Threw r')) \<and>
               pageExists client fetch now h pageId = (h', Inl (Threw r')) \<and>
               code (h' ! r') = code e))"
proof (cases "jsonRpcClient_call client fetch now ''core.getPageInfo''
                (JObj [(''page'', pageId)])")
  case (Inl e)
  then obtain h' r' where
      "client_call client fetch now h ''core.getPageInfo'' (JObj [(''page'', pageId)])
         = (h', Inl (Threw r'))"
      "code (h' ! r') = code e"
    using client_call_Inl by blast
  with Inl show ?thesis by (simp add: pageExists_def)
next
  case (Inr v)
  then show ?thesis by (simp add: client_call_Inr pageExists_def)
qed

lemma mediaExists_cases:
  "(snd (mediaExists client fetch now h mediaId) = Inr False
      \<longleftrightarrow> (\<exists>e. jsonRpcClient_call client fetch now ''core.getMediaInfo''
                 (JObj [(''media'', mediaId)]) = Inl e \<and> code e = Some 221)) \<and>
   (snd (mediaExists client fetch now h mediaId) = Inr True
      \<longleftrightarrow> (\<exists>v. jsonRpcClient_call client fetch now ''core.getMediaInfo''
                 (JObj [(''media'', mediaId)]) = Inr v)) \<and>
   (\<forall>e. jsonRpcClient_call client fetch now ''core.getMediaInfo''
           (JObj [(''media'', mediaId)]) = Inl e \<and> code e \<noteq> Some 221 \<longrightarrow>
      (\<exists>h' r'. client_call client fetch now h ''core.getMediaInfo''
                  (JObj [(''media'', mediaId)]) = (h', Inl (Threw r')) \<and>
               mediaExists client fetch now h mediaId = (h', Inl (Threw r')) \<and>
               code (h' ! r') = code e))"
proof (cases "jsonRpcClient_call client fetch now ''core.getMediaInfo''
                (JObj [(''media'', mediaId)])")
  case (Inl e)
  then obtain h' r' where
      "client_call client fetch now h ''core.getMediaInfo'' (JObj [(''media'', mediaId)])
         = (h', Inl (Threw r'))"
      "code (h' ! r') = code e"
    using client_call_Inl by blast
  with Inl show ?thesis by (simp add: mediaExists_def)
next
  case (Inr v)
  then show ?thesis by (simp add: client_call_Inr mediaExists_def)
qed

text \<open>
  C6. \<open>pageExists\<close> returns \<open>false\<close> exactly when the page-info call of the JSON-RPC
  client fails with code 121, and \<open>true\<close> exactly when that call returns a result,
  whatever the result. For a failure with another code or with none, \<open>pageExists\<close>
  throws the very error object that the client's \<open>call\<close> threw, in the same store, and
  its code is the one the JSON-RPC client raised. \<open>mediaExists\<close> does the same with the
  media-info call and code 221.
\<close>

theorem pageExists_mediaExists_outcomes:
  "((snd (pageExists client fetch now h pageId) = Inr False
      \<longleftrightarrow> (\<exists>e. jsonRpcClient_call client fetch now ''core.getPageInfo''
                 (JObj [(''page'', pageId)]) = Inl e \<and> code e = Some 121)) \<and>
    (snd (pageExists client fetch now h pageId) = Inr True
      \<longleftrightarrow> (\<exists>v. jsonRpcClient_call client fetch now ''core.getPageInfo''
                 (JObj [(''page'', pageId)]) = Inr v)) \<and>
    (\<forall>e. jsonRpcClient_call client fetch now ''core.getPageInfo''
           (JObj [(''page'', pageId)]) = Inl e \<and> code e \<noteq> Some 121 \<longrightarrow>
      (\<exists>h' r'. client_call client fetch now h ''core.getPageInfo''
                  (JObj [(''page'', pageId)]) = (h', Inl (Threw r')) \<and>
               pageExists client fetch now h pageId = (h', Inl (Threw r')) \<and>
               code (h' ! r') = code e))) \<and>
   ((snd (mediaExists client fetch now h mediaId) = Inr False
      \<longleftrightarrow> (\<exists>e. jsonRpcClient_call client fetch now ''core.getMediaInfo''
                 (JObj [(''media'', mediaId)]) = Inl e \<and> code e = Some 221)) \<and>
    (snd (mediaExists client fetch now h mediaId) = Inr True
      \<longleftrightarrow> (\<exists>v. jsonRpcClient_call client fetch now ''core.getMediaInfo''
                 (JObj [(''media'', mediaId)]) = Inr v)) \<and>
    (\<forall>e. jsonRpcClient_call client fetch now ''core.getMediaInfo''
           (JObj [(''media'', mediaId)]) = Inl e \<and> code e \<noteq> Some 221 \<longrightarrow>
      (\<exists>h' r'. client_call client fetch now h ''core.getMediaInfo''
                  (JObj [(''media'', mediaId)]) = (h', Inl (Threw r')) \<and>
               mediaExists client fetch now h mediaId = (h', Inl (Threw r')) \<and>
               code (h' ! r') = code e)))"
  by (rule conjI [OF pageExists_cases mediaExists_cases])

theorem pageExists_mediaExists_outcomes_witness:
  "snd (pageExists \<lparr>baseUrl = ''https://wiki.example.com/lib/exe/jsonrpc.php'', headers = []\<rparr>
         (\<lambda>req. JsonBody \<lparr>rpc_result = JNull,
                  rpc_error = Some \<lparr>rpc_code = Some 121, rpc_message = Some ''Page not found''\<rparr>\<rparr>)
         1234567890 [] (JStr ''test:nonexistent'')) = Inr False \<and>
   snd (mediaExists \<lparr>baseUrl = ''https://wiki.example.com/lib/exe/jsonrpc.php'', headers = []\<rparr>
         (\<lambda>req. JsonBody \<lparr>rpc_result = JObj [(''id'', JStr ''test'')], rpc_error = None\<rparr>)
         1234567890 [] (JStr ''test:image.jpg'')) = Inr True"
proof -
  let ?c = "\<lparr>baseUrl = ''https://wiki.example.com/lib/exe/jsonrpc.php'', headers = []\<rparr>"
  let ?f = "\<lambda>req::http_request. JsonBody \<lparr>rpc_result = JNull,
              rpc_error = Some \<lparr>rpc_code = Some 121, rpc_message = Some ''Page not found''\<rparr>\<rparr>"
  let ?g = "\<lambda>req::http_request. JsonBody \<lparr>rpc_result = JObj [(''id'', JStr ''test'')],
              rpc_error = None\<rparr>"
  have a: "\<exists>e. jsonRpcClient_call ?c ?f 1234567890 ''core.getPageInfo''
               (JObj [(''page'', JStr ''test:nonexistent'')]) = Inl e \<and> code e = Some 121"
    by (simp add: jsonRpcClient_call_def call_error_code)
  have b: "\<exists>v. jsonRpcClient_call ?c ?g 1234567890 ''core.getMediaInfo''
               (JObj [(''media'', JStr ''test:image.jpg'')]) = Inr v"
    by (simp add: jsonRpcClient_call_def)
  from pageExists_mediaExists_outcomes
         [of ?c ?f 1234567890 "[]" "JStr ''test:nonexistent''" "JStr ''x''",
          THEN conjunct1, THEN conjunct1] a
  have p: "snd (pageExists ?c ?f 1234567890 [] (JStr ''test:nonexistent'')) = Inr False"
    by (rule iffD2)
  from pageExists_mediaExists_outcomes
         [of ?c ?g 1234567890 "[]" "JStr ''x''" "JStr ''test:image.jpg''",
          THEN conjunct2, THEN conjunct2, THEN conjunct1] b
  have q: "snd (mediaExists ?c ?g 1234567890 [] (JStr ''test:image.jpg'')) = Inr True"
    by (rule iffD2)
  from p q show ?thesis by (rule conjI)
qed

end
